theory Spec2Isabelle
  imports Main "HOL-Library.Sublist"
begin

section \<open>The dependency-upgrade orchestrator of claude-sequencer64\<close>

text \<open>
  The development embeds the upgrade tooling of the repository: the classes
  \<^verbatim>\<open>UpgradeLogger\<close>, \<^verbatim>\<open>BuildTester\<close> and \<^verbatim>\<open>PackageBackup\<close> of
  \<^verbatim>\<open>upgrade-test.js\<close> and the class \<^verbatim>\<open>ReactScriptsUpgrader\<close> with its driver
  \<^verbatim>\<open>main\<close> (the second document of \<^verbatim>\<open>src/App/App.js\<close>).

  Everything outside the JavaScript code is explicit:
  \<^item> the project directory is a map from paths to nodes (a regular file with its
    content, or a directory with its entries); a path that is not mapped does not exist;
  \<^item> every \<^verbatim>\<open>execSync\<close> asks an oracle for the outcome of the external command and for
    the file system it leaves behind; the oracle sees the number of commands run so far,
    the command line and the current file system, so any sequence of outcomes is possible;
  \<^item> \<^verbatim>\<open>JSON.parse\<close> and \<^verbatim>\<open>JSON.stringify\<close> are parameters;
  \<^item> an exception is a value of the sum type, \<open>Inl\<close> carrying the error object;
  \<^item> the log file is the list of its entries, without the timestamps; appending to it is
    taken to succeed (the logger has no error handling of its own);
  \<^item> the field \<open>calls\<close> records, in order, which methods were entered and which
    commands were run. It is an observation of the run, not a variable of the program.
  Texts are lists of 8-bit characters; the pictographs in front of five log messages of
  \<^verbatim>\<open>performUpgrade\<close> and \<^verbatim>\<open>main\<close> are left out of the message literals.
\<close>

subsection \<open>File system\<close>

datatype node = File string | Dir "string list"

type_synonym filesystem = "string \<rightharpoonup> node"

text \<open>The error object of a caught exception: \<^verbatim>\<open>message\<close>, \<^verbatim>\<open>stderr\<close>, \<^verbatim>\<open>stdout\<close>.
  The last two are empty unless a child process produced them (an absent property and an
  empty string are both falsy for \<^verbatim>\<open>||\<close>).\<close>

record js_error =
  message :: string
  stderr :: string
  stdout :: string

definition fs_error :: "string \<Rightarrow> string \<Rightarrow> js_error" where
  "fs_error code path = \<lparr>message = code @ '': '' @ path, stderr = [], stdout = []\<rparr>"

definition existsSync :: "filesystem \<Rightarrow> string \<Rightarrow> bool" where
  "existsSync fs path = (fs path \<noteq> None)"

definition readFileSync :: "filesystem \<Rightarrow> string \<Rightarrow> js_error + string" where
  "readFileSync fs path =
     (case fs path of
        None \<Rightarrow> Inl (fs_error ''ENOENT'' path)
      | Some (Dir _) \<Rightarrow> Inl (fs_error ''EISDIR'' path)
      | Some (File content) \<Rightarrow> Inr content)"

definition writeFileSync :: "filesystem \<Rightarrow> string \<Rightarrow> string \<Rightarrow> js_error + filesystem" where
  "writeFileSync fs path content =
     (case fs path of
        Some (Dir _) \<Rightarrow> Inl (fs_error ''EISDIR'' path)
      | _ \<Rightarrow> Inr (fs(path \<mapsto> File content)))"

definition copyFileSync :: "filesystem \<Rightarrow> string \<Rightarrow> string \<Rightarrow> js_error + filesystem" where
  "copyFileSync fs src dest =
     (case readFileSync fs src of
        Inl e \<Rightarrow> Inl e
      | Inr content \<Rightarrow> writeFileSync fs dest content)"

definition readdirSync :: "filesystem \<Rightarrow> string \<Rightarrow> js_error + string list" where
  "readdirSync fs path =
     (case fs path of
        None \<Rightarrow> Inl (fs_error ''ENOENT'' path)
      | Some (File _) \<Rightarrow> Inl (fs_error ''ENOTDIR'' path)
      | Some (Dir entries) \<Rightarrow> Inr entries)"

definition is_dir :: "filesystem \<Rightarrow> string \<Rightarrow> bool" where
  "is_dir fs path = (case fs path of Some (Dir entries) \<Rightarrow> True | _ \<Rightarrow> False)"

definition is_file :: "filesystem \<Rightarrow> string \<Rightarrow> bool" where
  "is_file fs path = (case fs path of Some (File content) \<Rightarrow> True | _ \<Rightarrow> False)"

subsection \<open>The state of a run and the logger\<close>

datatype level = INFO | WARN | ERROR | SUCCESS

datatype call =
    Exec string
  | CreateCall
  | RestoreCall
  | TestBuildCall
  | UpdateHomepageUrlCall
  | HandleCompatibilityIssuesCall
  | UpgradeToVersionCall string
  | UpdateWorkflowCall
  | InstallDependenciesCall

record world =
  files :: filesystem
  ticks :: nat
  logFile :: "(level \<times> string) list"
  calls :: "call list"

definition logger_log :: "level \<Rightarrow> string \<Rightarrow> world \<Rightarrow> world" where
  "logger_log lvl msg w = w\<lparr>logFile := logFile w @ [(lvl, msg)]\<rparr>"

abbreviation logger_info :: "string \<Rightarrow> world \<Rightarrow> world" where
  "logger_info \<equiv> logger_log INFO"

abbreviation logger_error :: "string \<Rightarrow> world \<Rightarrow> world" where
  "logger_error \<equiv> logger_log ERROR"

abbreviation logger_success :: "string \<Rightarrow> world \<Rightarrow> world" where
  "logger_success \<equiv> logger_log SUCCESS"

abbreviation logger_warn :: "string \<Rightarrow> world \<Rightarrow> world" where
  "logger_warn \<equiv> logger_log WARN"

definition entered :: "call \<Rightarrow> world \<Rightarrow> world" where
  "entered c w = w\<lparr>calls := calls w @ [c]\<rparr>"

subsection \<open>PackageBackup\<close>

definition packageJson :: string where "packageJson = ''./package.json''"
definition packageLock :: string where "packageLock = ''./package-lock.json''"
definition backupFile :: string where "backupFile = ''./package.json.backup''"
definition lockBackupFile :: string where "lockBackupFile = ''./package-lock.json.backup''"

text \<open>
  A \<^verbatim>\<open>try\<close> block that copies two files can throw after the first copy is on disk.
  Its model returns the error, if any, together with the file system at the moment the
  block is left.
\<close>

definition create_try :: "filesystem \<Rightarrow> js_error option \<times> filesystem" where
  "create_try fs =
     (case copyFileSync fs packageJson backupFile of
        Inl e \<Rightarrow> (Some e, fs)
      | Inr fs1 \<Rightarrow>
          if existsSync fs1 packageLock then
            (case copyFileSync fs1 packageLock lockBackupFile of
               Inl e \<Rightarrow> (Some e, fs1)
             | Inr fs2 \<Rightarrow> (None, fs2))
          else (None, fs1))"

definition create :: "world \<Rightarrow> bool \<times> world" where
  "create w0 =
     (let w = logger_info ''Creating package.json backup...'' (entered CreateCall w0)
      in case create_try (files w) of
           (None, fs') \<Rightarrow>
             (True, logger_success ''Backup created successfully'' (w\<lparr>files := fs'\<rparr>))
         | (Some e, fs') \<Rightarrow>
             (False, logger_error (''Backup failed: '' @ message e) (w\<lparr>files := fs'\<rparr>)))"

definition restore_try :: "filesystem \<Rightarrow> js_error option \<times> filesystem" where
  "restore_try fs =
     (case copyFileSync fs backupFile packageJson of
        Inl e \<Rightarrow> (Some e, fs)
      | Inr fs1 \<Rightarrow>
          if existsSync fs1 lockBackupFile then
            (case copyFileSync fs1 lockBackupFile packageLock of
               Inl e \<Rightarrow> (Some e, fs1)
             | Inr fs2 \<Rightarrow> (None, fs2))
          else (None, fs1))"

definition restore :: "world \<Rightarrow> bool \<times> world" where
  "restore w0 =
     (let w = logger_info ''Restoring from backup...'' (entered RestoreCall w0)
      in case restore_try (files w) of
           (None, fs') \<Rightarrow>
             (True, logger_success ''Backup restored successfully'' (w\<lparr>files := fs'\<rparr>))
         | (Some e, fs') \<Rightarrow>
             (False, logger_error (''Restore failed: '' @ message e) (w\<lparr>files := fs'\<rparr>)))"

subsection \<open>External commands\<close>

datatype json =
    JNull
  | JBool bool
  | JNum string
  | JStr string
  | JArr "json list"
  | JObj "(string \<times> json) list"

record env =
  exec :: "nat \<Rightarrow> string \<Rightarrow> filesystem \<Rightarrow> (js_error + string) \<times> filesystem"
  json_parse :: "string \<Rightarrow> js_error + json"
  json_stringify :: "json \<Rightarrow> string"

text \<open>\<^verbatim>\<open>execSync(cmd, {encoding: 'utf8', stdio: 'pipe', timeout: ...})\<close>: the standard
  output of the command when it exits with status 0, an exception when it exits with
  another status, cannot be started or is killed at the timeout.\<close>

definition execSync :: "env \<Rightarrow> string \<Rightarrow> world \<Rightarrow> (js_error + string) \<times> world" where
  "execSync env cmd w =
     (case exec env (ticks w) cmd (files w) of
        (r, fs') \<Rightarrow> (r, w\<lparr>files := fs', ticks := Suc (ticks w), calls := calls w @ [Exec cmd]\<rparr>))"

subsection \<open>Text helpers\<close>

definition digit :: "nat \<Rightarrow> char" where
  "digit d = char_of (48 + d)"

fun show_nat :: "nat \<Rightarrow> string" where
  "show_nat n = (if n < 10 then [digit n] else show_nat (n div 10) @ [digit (n mod 10)])"

declare show_nat.simps [simp del]

fun join :: "string \<Rightarrow> string list \<Rightarrow> string" where
  "join sep [] = []"
| "join sep [x] = x"
| "join sep (x # y # ys) = x @ sep @ join sep (y # ys)"

text \<open>\<^verbatim>\<open>a || b\<close> on strings: the empty string is falsy.\<close>

definition or_else :: "string \<Rightarrow> string \<Rightarrow> string" where
  "or_else a b = (if a \<noteq> [] then a else b)"

subsection \<open>BuildTester\<close>

definition buildDir :: string where "buildDir = ''./build''"

definition legacyBuildCommand :: string where
  "legacyBuildCommand = ''CI=false NODE_OPTIONS=--openssl-legacy-provider npm run build''"

definition modernBuildCommand :: string where
  "modernBuildCommand = ''CI=false npm run build''"

text \<open>The \<^verbatim>\<open>catch\<close> block of \<^verbatim>\<open>testBuild\<close>.\<close>

definition testBuild_catch :: "js_error \<Rightarrow> world \<Rightarrow> bool \<times> world" where
  "testBuild_catch e w =
     (False,
      logger_error (''Build stdout: '' @ or_else (stdout e) ''No stdout'')
        (logger_error (''Build stderr: '' @ or_else (stderr e) ''No stderr'')
          (logger_error (''Build failed: '' @ message e) w)))"

definition testBuild :: "env \<Rightarrow> world \<Rightarrow> bool \<times> world" where
  "testBuild env w0 =
     (let w = logger_info ''Testing build process...'' (entered TestBuildCall w0)
      in case execSync env legacyBuildCommand w of
           (Inl e, w1) \<Rightarrow> testBuild_catch e w1
         | (Inr result, w1) \<Rightarrow>
             (let w2 = logger_success ''Build completed successfully'' w1;
                  w3 = logger_info (''Build output length: '' @ show_nat (length result)
                                     @ '' characters'') w2
              in if existsSync (files w3) buildDir then
                   (case readdirSync (files w3) buildDir of
                      Inl e \<Rightarrow> testBuild_catch e w3
                    | Inr buildFiles \<Rightarrow>
                        (let w4 = logger_info (''Build directory contains ''
                                     @ show_nat (length buildFiles) @ '' files'') w3;
                             w5 = logger_info (''Build files: ''
                                     @ join '', '' (take 10 buildFiles)
                                     @ (if length buildFiles > 10 then ''...'' else [])) w4
                         in (True, w5)))
                 else (True, w3)))"

subsection \<open>ReactScriptsUpgrader: manifest edits\<close>

record UpgradeStep =
  version :: string
  description :: string

definition upgradePath :: "UpgradeStep list" where
  "upgradePath =
     [\<lparr>version = ''5.0.0'',
       description = ''React Scripts 5.0.0 - Major version with Webpack 5''\<rparr>,
      \<lparr>version = ''5.0.1'',
       description = ''React Scripts 5.0.1 - Latest stable in 5.x''\<rparr>]"

text \<open>
  The assignment \<^verbatim>\<open>packageJson.key = value\<close> in the strict code of a class body, as far
  as \<^verbatim>\<open>JSON.stringify\<close> can see it afterwards: an object gets or replaces the key (a
  replaced key keeps its place, a new one goes last), an array takes a property that is
  not serialised, and \<^verbatim>\<open>null\<close> and the primitive values throw a TypeError.
\<close>

fun assign_key :: "string \<Rightarrow> json \<Rightarrow> (string \<times> json) list \<Rightarrow> (string \<times> json) list" where
  "assign_key k v [] = [(k, v)]"
| "assign_key k v ((k', v') # kvs) =
     (if k' = k then (k, v) # kvs else (k', v') # assign_key k v kvs)"

definition set_property :: "json \<Rightarrow> string \<Rightarrow> json \<Rightarrow> js_error + json" where
  "set_property doc k v =
     (case doc of
        JObj kvs \<Rightarrow> Inr (JObj (assign_key k v kvs))
      | JArr xs \<Rightarrow> Inr (JArr xs)
      | _ \<Rightarrow> Inl \<lparr>message = ''Cannot set property '' @ k, stderr = [], stdout = []\<rparr>)"

text \<open>\<^verbatim>\<open>JSON.parse(fs.readFileSync('./package.json', 'utf8'))\<close>\<close>

definition read_manifest :: "env \<Rightarrow> filesystem \<Rightarrow> js_error + json" where
  "read_manifest env fs =
     (case readFileSync fs packageJson of
        Inl e \<Rightarrow> Inl e
      | Inr text \<Rightarrow> json_parse env text)"

text \<open>\<^verbatim>\<open>fs.writeFileSync('./package.json', JSON.stringify(packageJson, null, 2))\<close>\<close>

definition write_manifest :: "env \<Rightarrow> filesystem \<Rightarrow> json \<Rightarrow> js_error + filesystem" where
  "write_manifest env fs doc = writeFileSync fs packageJson (json_stringify env doc)"

definition homepage :: json where
  "homepage = JStr ''https://shepsci.github.io/claude-sequencer64''"

definition updateHomepageUrl_try :: "env \<Rightarrow> filesystem \<Rightarrow> js_error + filesystem" where
  "updateHomepageUrl_try env fs =
     (case read_manifest env fs of
        Inl e \<Rightarrow> Inl e
      | Inr doc \<Rightarrow>
          (case set_property doc ''homepage'' homepage of
             Inl e \<Rightarrow> Inl e
           | Inr doc' \<Rightarrow> write_manifest env fs doc'))"

definition updateHomepageUrl :: "env \<Rightarrow> world \<Rightarrow> world" where
  "updateHomepageUrl env w0 =
     (let w = logger_info ''Updating homepage URL for new repository name...''
                (entered UpdateHomepageUrlCall w0)
      in case updateHomepageUrl_try env (files w) of
           Inr fs' \<Rightarrow> logger_success ''Homepage URL updated to claude-sequencer64''
                        (w\<lparr>files := fs'\<rparr>)
         | Inl e \<Rightarrow> logger_error (''Failed to update homepage: '' @ message e) w)"

definition browserslist :: json where
  "browserslist =
     JObj [(''production'',
              JArr [JStr ''>0.2%'', JStr ''not dead'', JStr ''not op_mini all'']),
           (''development'',
              JArr [JStr ''last 1 chrome version'', JStr ''last 1 firefox version'',
                    JStr ''last 1 safari version''])]"

definition handleCompatibilityIssues_try :: "env \<Rightarrow> filesystem \<Rightarrow> js_error + filesystem" where
  "handleCompatibilityIssues_try env fs =
     (case read_manifest env fs of
        Inl e \<Rightarrow> Inl e
      | Inr doc \<Rightarrow>
          (case set_property doc ''browserslist'' browserslist of
             Inl e \<Rightarrow> Inl e
           | Inr doc' \<Rightarrow> write_manifest env fs doc'))"

definition handleCompatibilityIssues :: "env \<Rightarrow> world \<Rightarrow> world" where
  "handleCompatibilityIssues env w0 =
     (let w = logger_info ''Checking for compatibility issues...''
                (entered HandleCompatibilityIssuesCall w0)
      in case handleCompatibilityIssues_try env (files w) of
           Inr fs' \<Rightarrow> logger_success ''Updated browserslist for compatibility''
                        (w\<lparr>files := fs'\<rparr>)
         | Inl e \<Rightarrow> logger_warn (''Could not update browserslist: '' @ message e) w)"

subsection \<open>ReactScriptsUpgrader: installation and one upgrade step\<close>

definition installCommand :: string where
  "installCommand = ''npm install --legacy-peer-deps''"

definition installDependencies :: "env \<Rightarrow> world \<Rightarrow> bool \<times> world" where
  "installDependencies env w0 =
     (let w = logger_info ''Installing dependencies with legacy peer deps...''
                (entered InstallDependenciesCall w0)
      in case execSync env installCommand w of
           (Inr out, w1) \<Rightarrow> (True, logger_success ''Dependencies installed successfully'' w1)
         | (Inl e, w1) \<Rightarrow>
             (False, logger_error (''Dependency installation failed: '' @ message e) w1))"

text \<open>The outer \<^verbatim>\<open>catch\<close> block of \<^verbatim>\<open>upgradeToVersion\<close>.\<close>

definition upgradeToVersion_catch :: "string \<Rightarrow> js_error \<Rightarrow> world \<Rightarrow> bool \<times> world" where
  "upgradeToVersion_catch targetVersion e w =
     (False,
      logger_error (''Error details: ''
                      @ or_else (stderr e) (or_else (stdout e) ''No additional details''))
        (logger_error (''Upgrade to '' @ targetVersion @ '' failed: '' @ message e) w))"

text \<open>
  The build verification of a step, from \<^verbatim>\<open>Testing build after upgrade...\<close> to the end
  of the \<^verbatim>\<open>try\<close> block of \<^verbatim>\<open>upgradeToVersion\<close>: the build without the legacy OpenSSL
  provider first, \<^verbatim>\<open>this.tester.testBuild()\<close> in the \<^verbatim>\<open>catch\<close> block of that attempt.
\<close>

definition verifyBuild :: "env \<Rightarrow> string \<Rightarrow> world \<Rightarrow> bool \<times> world" where
  "verifyBuild env targetVersion w0 =
     (let w = logger_info ''Testing build after upgrade...'' w0;
          (buildPassed, w2) =
             (case execSync env modernBuildCommand w of
                (Inr result, w1) \<Rightarrow>
                  (True, logger_success ''Build successful without legacy OpenSSL provider'' w1)
              | (Inl e, w1) \<Rightarrow>
                  testBuild env
                    (logger_info
                       ''Build failed without legacy provider, trying with legacy provider...''
                       w1))
      in if \<not> buildPassed then
           (False, logger_error (''Build failed with react-scripts@'' @ targetVersion) w2)
         else
           (True, logger_success (''Build successful with react-scripts@'' @ targetVersion) w2))"

definition cleanCommand :: string where
  "cleanCommand = ''rm -rf node_modules package-lock.json''"

definition installTargetCommand :: "string \<Rightarrow> string" where
  "installTargetCommand targetVersion =
     ''npm install react-scripts@'' @ targetVersion @ '' --legacy-peer-deps''"

text \<open>
  The \<^verbatim>\<open>try\<close> block of \<^verbatim>\<open>upgradeToVersion\<close> up to the entry
  \<^verbatim>\<open>React Scripts ... installed\<close>: the error thrown by one of the two installations,
  if any, and the state at that moment. A failure of the clean-up command is caught by
  the inner \<^verbatim>\<open>try\<close>.
\<close>

definition upgradeToVersion_install ::
    "env \<Rightarrow> string \<Rightarrow> string \<Rightarrow> world \<Rightarrow> js_error option \<times> world" where
  "upgradeToVersion_install env targetVersion descr w0 =
     (let w1 = logger_info (''Starting upgrade to '' @ descr)
                 (entered (UpgradeToVersionCall targetVersion) w0);
          w2 = logger_info ''Cleaning dependencies for fresh install...'' w1;
          w3 = (case execSync env cleanCommand w2 of
                  (Inr out, w') \<Rightarrow> w'
                | (Inl e, w') \<Rightarrow> logger_warn ''Could not clean dependencies'' w');
          w4 = logger_info (''Installing react-scripts@'' @ targetVersion @ ''...'') w3
      in case execSync env (installTargetCommand targetVersion) w4 of
           (Inl e, w5) \<Rightarrow> (Some e, w5)
         | (Inr out, w5) \<Rightarrow>
             (case execSync env installCommand
                     (logger_info ''Installing all dependencies...'' w5) of
                (Inl e, w6) \<Rightarrow> (Some e, w6)
              | (Inr out', w6) \<Rightarrow>
                  (None,
                   logger_success (''React Scripts '' @ targetVersion @ '' installed'') w6)))"

definition upgradeToVersion :: "env \<Rightarrow> string \<Rightarrow> string \<Rightarrow> world \<Rightarrow> bool \<times> world" where
  "upgradeToVersion env targetVersion descr w0 =
     (case upgradeToVersion_install env targetVersion descr w0 of
        (Some e, w) \<Rightarrow> upgradeToVersion_catch targetVersion e w
      | (None, w) \<Rightarrow> verifyBuild env targetVersion w)"

subsection \<open>ReactScriptsUpgrader: the workflow patch\<close>

text \<open>
  The three substitutions of \<^verbatim>\<open>updateWorkflowForNewVersion\<close>. The first two patterns
  have no \<^verbatim>\<open>g\<close> flag: only the leftmost match is replaced. Characters are the code
  units of the text, below 256.
\<close>

definition is_quote :: "char \<Rightarrow> bool" where
  "is_quote c = (c = CHR 0x27 \<or> c = CHR 0x22)"

text \<open>\<^verbatim>\<open>/node-version: ['"]16['"]/\<close> matches at the start of the text.\<close>

definition node16_at :: "string \<Rightarrow> bool" where
  "node16_at s =
     (prefix ''node-version: '' s \<and>
      (case drop 14 s of
         q1 # a # b # q2 # rest \<Rightarrow> is_quote q1 \<and> a = CHR ''1'' \<and> b = CHR ''6'' \<and> is_quote q2
       | _ \<Rightarrow> False))"

definition node18 :: string where
  "node18 = ''node-version: '' @ [CHR 0x27] @ ''18'' @ [CHR 0x27]"

fun replace_node_version :: "string \<Rightarrow> string" where
  "replace_node_version [] = []"
| "replace_node_version (c # cs) =
     (if node16_at (c # cs) then node18 @ drop 18 (c # cs)
      else c # replace_node_version cs)"

text \<open>The class \<^verbatim>\<open>\s\<close> below code unit 256.\<close>

definition is_space :: "char \<Rightarrow> bool" where
  "is_space c = (c \<in> {CHR 0x09, CHR 0x0A, CHR 0x0B, CHR 0x0C, CHR 0x0D, CHR 0x20, CHR 0xA0})"

definition legacyExport :: string where
  "legacyExport = ''export NODE_OPTIONS=--openssl-legacy-provider''"

text \<open>
  \<^verbatim>\<open>/export NODE_OPTIONS=--openssl-legacy-provider\s*\n\s*/\<close> matches at the start of
  the text when the white space that follows the literal holds a line feed; the match
  then takes all of that white space.
\<close>

definition legacy_export_at :: "string \<Rightarrow> bool" where
  "legacy_export_at s =
     (prefix legacyExport s \<and>
      CHR 0x0A \<in> set (takeWhile is_space (drop (length legacyExport) s)))"

fun remove_legacy_export :: "string \<Rightarrow> string" where
  "remove_legacy_export [] = []"
| "remove_legacy_export (c # cs) =
     (if legacy_export_at (c # cs)
      then dropWhile is_space (drop (length legacyExport) (c # cs))
      else c # remove_legacy_export cs)"

definition token :: string where
  "token = ''claude-sequencer''"

definition token64 :: string where
  "token64 = ''claude-sequencer64''"

text \<open>\<^verbatim>\<open>workflow.replace(/claude-sequencer/g, 'claude-sequencer64')\<close>: every match, from
  left to right, the search going on behind the match.\<close>

fun rename_token :: "string \<Rightarrow> string" where
  "rename_token [] = []"
| "rename_token (c # cs) =
     (if prefix token (c # cs) then token64 @ rename_token (drop (length token - 1) cs)
      else c # rename_token cs)"


definition patch_workflow :: "string \<Rightarrow> string" where
  "patch_workflow workflow =
     rename_token (remove_legacy_export (replace_node_version workflow))"

definition workflowPath :: string where
  "workflowPath = ''./.github/workflows/deploy.yml''"

definition updateWorkflow_try :: "filesystem \<Rightarrow> js_error + filesystem option" where
  "updateWorkflow_try fs =
     (if existsSync fs workflowPath then
        (case readFileSync fs workflowPath of
           Inl e \<Rightarrow> Inl e
         | Inr workflow \<Rightarrow>
             (case writeFileSync fs workflowPath (patch_workflow workflow) of
                Inl e \<Rightarrow> Inl e
              | Inr fs' \<Rightarrow> Inr (Some fs')))
      else Inr None)"

definition updateWorkflowForNewVersion :: "world \<Rightarrow> world" where
  "updateWorkflowForNewVersion w0 =
     (let w = logger_info
                ''Updating GitHub Actions workflow for newer Node/React Scripts...''
                (entered UpdateWorkflowCall w0)
      in case updateWorkflow_try (files w) of
           Inr (Some fs') \<Rightarrow> logger_success ''GitHub Actions workflow updated''
                               (w\<lparr>files := fs'\<rparr>)
         | Inr None \<Rightarrow> w
         | Inl e \<Rightarrow> logger_warn (''Could not update workflow: '' @ message e) w)"

subsection \<open>ReactScriptsUpgrader: the run\<close>

text \<open>The branch of the loop body taken when \<^verbatim>\<open>upgradeToVersion\<close> returned true,
  up to the call of the final build test: the value of \<^verbatim>\<open>installDependencies\<close> is
  not bound to anything.\<close>

definition finalize :: "env \<Rightarrow> UpgradeStep \<Rightarrow> world \<Rightarrow> world" where
  "finalize env upgrade w0 =
     (let w1 = logger_success (''Successfully upgraded to React Scripts '' @ version upgrade) w0;
          w2 = updateWorkflowForNewVersion w1;
          (installed, w3) = installDependencies env w2
      in logger_info ''Performing final build test...'' w3)"

text \<open>The final build test and the two \<^verbatim>\<open>return\<close> statements behind it.\<close>

definition finish :: "env \<Rightarrow> UpgradeStep \<Rightarrow> world \<Rightarrow> bool \<times> world" where
  "finish env upgrade w0 =
     (case testBuild env (finalize env upgrade w0) of
        (True, w5) \<Rightarrow>
          (True,
           logger_info (''Final version: React Scripts '' @ version upgrade)
             (logger_success ''Upgrade completed successfully!'' w5))
      | (False, w5) \<Rightarrow> (False, logger_error ''Final build test failed'' w5))"

text \<open>The branch taken when \<^verbatim>\<open>upgradeToVersion\<close> returned false; the loop goes on.\<close>

definition fallback :: "env \<Rightarrow> UpgradeStep \<Rightarrow> world \<Rightarrow> world" where
  "fallback env upgrade w0 =
     (let w1 = logger_warn (''Upgrade to '' @ version upgrade @ '' failed, trying fallback...'')
                 w0;
          (restored, w2) = restore w1;
          (installed, w3) = installDependencies env w2
      in w3)"

text \<open>The call of \<^verbatim>\<open>upgradeToVersion\<close> at the head of the loop body.\<close>

definition attempt :: "env \<Rightarrow> UpgradeStep \<Rightarrow> world \<Rightarrow> bool \<times> world" where
  "attempt env upgrade w =
     upgradeToVersion env (version upgrade) (description upgrade)
       (logger_info ([CHR 0x0A] @ ''--- Attempting upgrade to '' @ description upgrade @ '' ---'')
          w)"

text \<open>The \<^verbatim>\<open>for\<close> loop of \<^verbatim>\<open>performUpgrade\<close> over the steps that are left, with the
  two statements behind the loop.\<close>

fun upgradeLoop :: "env \<Rightarrow> UpgradeStep list \<Rightarrow> world \<Rightarrow> bool \<times> world" where
  "upgradeLoop env [] w = (False, logger_error ''All upgrade attempts failed'' w)"
| "upgradeLoop env (upgrade # rest) w =
     (case attempt env upgrade w of
        (True, w1) \<Rightarrow> finish env upgrade w1
      | (False, w1) \<Rightarrow> upgradeLoop env rest (fallback env upgrade w1))"

definition performUpgrade_start :: "world \<Rightarrow> world" where
  "performUpgrade_start w =
     logger_info ''Upgrading React Scripts will fix these issues''
       (logger_info
          ''Note: Skipping baseline test since current build has Node.js compatibility issues''
          (logger_info ''=== Starting React Scripts Upgrade Process ==='' w))"

definition performUpgrade :: "env \<Rightarrow> UpgradeStep list \<Rightarrow> world \<Rightarrow> bool \<times> world" where
  "performUpgrade env path w0 =
     (case create (performUpgrade_start w0) of
        (False, w1) \<Rightarrow> (False, logger_error ''Failed to create backup - aborting'' w1)
      | (True, w1) \<Rightarrow>
          upgradeLoop env path (handleCompatibilityIssues env (updateHomepageUrl env w1)))"

text \<open>
  The driver: the constructors (the logger writes its first entry), the run, and the exit
  status. No model function throws, so the \<^verbatim>\<open>catch\<close> block of the driver has no
  counterpart.
\<close>

definition main :: "env \<Rightarrow> world \<Rightarrow> nat \<times> world" where
  "main env w0 =
     (let w = logger_info ''=== React Scripts Upgrade Process Started ==='' w0
      in case performUpgrade env upgradePath w of
           (True, w1) \<Rightarrow>
             (0, logger_info ''You can now commit the changes and deploy''
                   (logger_success ''React Scripts upgrade completed successfully!'' w1))
         | (False, w1) \<Rightarrow>
             (1, snd (restore (logger_error ''Upgrade failed - restoring backup'' w1))))"

subsection \<open>Observations of a run\<close>

text \<open>The state in which \<^verbatim>\<open>performUpgrade\<close> enters its loop when \<^verbatim>\<open>create()\<close>
  returned true.\<close>

definition prepared :: "env \<Rightarrow> world \<Rightarrow> world" where
  "prepared env w =
     handleCompatibilityIssues env
       (updateHomepageUrl env (snd (create (performUpgrade_start w))))"

text \<open>The attempts of upgrade steps and the restores among the recorded calls.\<close>

fun is_step_call :: "call \<Rightarrow> bool" where
  "is_step_call (UpgradeToVersionCall v) = True"
| "is_step_call RestoreCall = True"
| "is_step_call c = False"

definition steps_of :: "call list \<Rightarrow> call list" where
  "steps_of cs = filter is_step_call cs"

text \<open>
  Step \<open>k\<close> of the path (counted from 0) is the first that passes: entered with state
  \<open>w\<close>, the loop sees \<^verbatim>\<open>upgradeToVersion\<close> return false for the steps before \<open>k\<close>,
  each followed by the fallback branch, and at step \<open>k\<close> it sees \<^verbatim>\<open>upgradeToVersion\<close>
  return true and the final build test pass.
\<close>

fun passes_first_at :: "env \<Rightarrow> UpgradeStep list \<Rightarrow> nat \<Rightarrow> world \<Rightarrow> bool" where
  "passes_first_at env [] k w = False"
| "passes_first_at env (u # us) 0 w =
     (fst (attempt env u w) \<and> fst (finish env u (snd (attempt env u w))))"
| "passes_first_at env (u # us) (Suc k) w =
     (\<not> fst (attempt env u w) \<and>
      passes_first_at env us k (fallback env u (snd (attempt env u w))))"

text \<open>The outcome of an external command run in state \<open>w\<close>.\<close>

definition command_fails :: "env \<Rightarrow> string \<Rightarrow> world \<Rightarrow> bool" where
  "command_fails env cmd w = isl (fst (exec env (ticks w) cmd (files w)))"

subsection \<open>Concrete environments and projects\<close>

text \<open>An environment in which exactly the commands numbered in \<open>ts\<close> (counting from 0)
  fail, no command touches the file system, and every manifest parses to the empty
  object.\<close>

definition failing_at :: "nat list \<Rightarrow> env" where
  "failing_at ts =
     \<lparr>exec = (\<lambda>t cmd fs.
         (if t \<in> set ts
          then Inl \<lparr>message = ''Command failed: '' @ cmd, stderr = ''exit 1'', stdout = []\<rparr>
          else Inr [], fs)),
      json_parse = (\<lambda>text. Inr (JObj [])),
      json_stringify = (\<lambda>doc. ''{}'')\<rparr>"

text \<open>The same without failing commands, but no manifest parses.\<close>

definition unparsable :: env where
  "unparsable =
     (failing_at [])\<lparr>json_parse :=
        (\<lambda>text. Inl \<lparr>message = ''Unexpected token'', stderr = [], stdout = []\<rparr>)\<rparr>"

definition project :: "filesystem \<Rightarrow> world" where
  "project fs = \<lparr>files = fs, ticks = 0, logFile = [], calls = []\<rparr>"

definition fresh_project :: world where
  "fresh_project = project [packageJson \<mapsto> File ''manifest-0'', packageLock \<mapsto> File ''lock-0'']"

text \<open>The fresh project after \<^verbatim>\<open>create()\<close>, with the manifest rewritten and the lock
  file deleted.\<close>

definition mutated_project :: world where
  "mutated_project =
     (snd (create fresh_project))
       \<lparr>files := (files (snd (create fresh_project)))
                    (packageJson \<mapsto> File ''manifest-1'', packageLock := None)\<rparr>"

text \<open>A project without a manifest, with the backup of an earlier run.\<close>

definition stale_backup_project :: world where
  "stale_backup_project = project [backupFile \<mapsto> File ''manifest-old'']"

text \<open>A project in which \<^verbatim>\<open>./build\<close> is a regular file.\<close>

definition build_file_project :: world where
  "build_file_project =
     project [packageJson \<mapsto> File ''manifest-0'', buildDir \<mapsto> File ''#!/bin/sh'']"

section \<open>Properties\<close>

subsection \<open>Basic facts\<close>

lemma paths_distinct [simp]:
  "packageJson \<noteq> backupFile" "packageJson \<noteq> lockBackupFile" "packageJson \<noteq> packageLock"
  "packageLock \<noteq> backupFile" "packageLock \<noteq> lockBackupFile" "backupFile \<noteq> lockBackupFile"
  "backupFile \<noteq> packageJson" "lockBackupFile \<noteq> packageJson" "packageLock \<noteq> packageJson"
  "backupFile \<noteq> packageLock" "lockBackupFile \<noteq> packageLock" "lockBackupFile \<noteq> backupFile"
  by (simp_all add: packageJson_def backupFile_def lockBackupFile_def packageLock_def)

lemma names_distinct [simp]:
  "workflowPath \<noteq> packageJson" "workflowPath \<noteq> packageLock" "workflowPath \<noteq> backupFile" "workflowPath \<noteq> lockBackupFile"
  "buildDir \<noteq> packageJson" "buildDir \<noteq> packageLock" "buildDir \<noteq> backupFile" "buildDir \<noteq> lockBackupFile"
  "buildDir \<noteq> workflowPath"
  by (simp_all add: workflowPath_def buildDir_def packageJson_def backupFile_def lockBackupFile_def packageLock_def)

lemma logger_log_fields [simp]:
  "files (logger_log lvl msg w) = files w"
  "ticks (logger_log lvl msg w) = ticks w"
  "calls (logger_log lvl msg w) = calls w"
  "logFile (logger_log lvl msg w) = logFile w @ [(lvl, msg)]"
  by (simp_all add: logger_log_def)

lemma entered_fields [simp]:
  "files (entered c w) = files w"
  "ticks (entered c w) = ticks w"
  "calls (entered c w) = calls w @ [c]"
  "logFile (entered c w) = logFile w"
  by (simp_all add: entered_def)

lemmas fs_defs = copyFileSync_def readFileSync_def writeFileSync_def existsSync_def

lemma execSync_fields [simp]:
  "fst (execSync env cmd w) = fst (exec env (ticks w) cmd (files w))"
  "calls (snd (execSync env cmd w)) = calls w @ [Exec cmd]"
  "ticks (snd (execSync env cmd w)) = Suc (ticks w)"
  "logFile (snd (execSync env cmd w)) = logFile w"
  "files (snd (execSync env cmd w)) = snd (exec env (ticks w) cmd (files w))"
  by (simp_all add: execSync_def case_prod_beta)

lemma failing_at_fields [simp]:
  "fst (exec (failing_at ts) t cmd fs) =
     (if t \<in> set ts
      then Inl \<lparr>message = ''Command failed: '' @ cmd, stderr = ''exit 1'', stdout = []\<rparr>
      else Inr [])"
  "snd (exec (failing_at ts) t cmd fs) = fs"
  "json_parse (failing_at ts) text = Inr (JObj [])"
  "json_stringify (failing_at ts) doc = ''{}''"
  by (simp_all add: failing_at_def)

lemma unparsable_fields [simp]:
  "json_parse unparsable text = Inl \<lparr>message = ''Unexpected token'', stderr = [], stdout = []\<rparr>"
  "exec unparsable = exec (failing_at [])"
  "json_stringify unparsable = json_stringify (failing_at [])"
  by (simp_all add: unparsable_def)

lemma fresh_fields [simp]:
  "files fresh_project = [packageJson \<mapsto> File ''manifest-0'', packageLock \<mapsto> File ''lock-0'']"
  "ticks fresh_project = 0" "calls fresh_project = []"
  by (simp_all add: fresh_project_def project_def)

lemma stale_fields [simp]:
  "files stale_backup_project = [backupFile \<mapsto> File ''manifest-old'']"
  "ticks stale_backup_project = 0" "calls stale_backup_project = []"
  by (simp_all add: stale_backup_project_def project_def)

lemma build_file_fields [simp]:
  "files build_file_project = [packageJson \<mapsto> File ''manifest-0'', buildDir \<mapsto> File ''#!/bin/sh'']"
  "ticks build_file_project = 0" "calls build_file_project = []"
  by (simp_all add: build_file_project_def project_def)

lemmas run_defs =
  performUpgrade_def performUpgrade_start_def prepared_def create_def create_try_def
  restore_def restore_try_def fs_defs updateHomepageUrl_def updateHomepageUrl_try_def
  handleCompatibilityIssues_def handleCompatibilityIssues_try_def read_manifest_def
  write_manifest_def set_property_def attempt_def upgradeToVersion_def
  upgradeToVersion_install_def upgradeToVersion_catch_def verifyBuild_def testBuild_def
  testBuild_catch_def installDependencies_def finish_def finalize_def fallback_def
  updateWorkflowForNewVersion_def updateWorkflow_try_def readdirSync_def
  Let_def case_prod_beta

subsection \<open>PackageBackup\<close>

lemma create_ok_backup:
  assumes "fst (create w)"
  shows "files (snd (create w)) backupFile = files w packageJson"
    and "files w packageLock \<noteq> None \<Longrightarrow>
           files (snd (create w)) lockBackupFile = files w packageLock"
  using assms
  by (auto simp: create_def create_try_def fs_defs Let_def
      split: option.splits node.splits sum.splits if_splits prod.splits)

lemma create_fresh: "fst (create fresh_project)"
  "files (snd (create fresh_project)) = [packageJson \<mapsto> File ''manifest-0'', packageLock \<mapsto> File ''lock-0'', backupFile \<mapsto> File ''manifest-0'', lockBackupFile \<mapsto> File ''lock-0'']"
  by (simp_all add: create_def create_try_def fs_defs Let_def fresh_project_def project_def)

lemma create_result:
  "fst (create w) = (fst (create_try (files w)) = None)"
  "files (snd (create w)) = snd (create_try (files w))"
  by (simp_all add: create_def Let_def case_prod_beta split: option.splits)

lemma create_try_live:
  "snd (create_try fs) packageJson = fs packageJson"
  "snd (create_try fs) packageLock = fs packageLock"
  by (auto simp add: create_try_def fs_defs split: sum.splits option.splits node.splits)

text \<open>
  C8 (backup round trip). Let the live manifest be a file with content \<open>M\<close> and let
  \<^verbatim>\<open>create()\<close> return true. Let \<open>w'\<close> be any later state in which the two backup files
  are as \<^verbatim>\<open>create()\<close> left them and the live manifest and lock file have been changed
  in any way (rewritten or deleted, but not turned into directories). Then after
  \<^verbatim>\<open>restore()\<close> the live manifest is the file \<open>M\<close> again; when the lock file was a file
  \<open>L\<close> at the time of \<^verbatim>\<open>create()\<close>, \<^verbatim>\<open>restore()\<close> returns true and the live lock file
  is \<open>L\<close> again; and \<^verbatim>\<open>restore()\<close> returns true unless the path of the lock backup is
  a directory.
\<close>

theorem backup_round_trip:
  assumes "files w packageJson = Some (File M)"
      and "fst (create w)"
      and "files w' backupFile = files (snd (create w)) backupFile"
      and "files w' lockBackupFile = files (snd (create w)) lockBackupFile"
      and "\<not> is_dir (files w') packageJson"
      and "\<not> is_dir (files w') packageLock"
  shows "files (snd (restore w')) packageJson = Some (File M) \<and>
         (\<forall>L. files w packageLock = Some (File L) \<longrightarrow>
              fst (restore w') \<and> files (snd (restore w')) packageLock = Some (File L)) \<and>
         (\<not> is_dir (files w') lockBackupFile \<longrightarrow> fst (restore w'))"
proof -
  have b: "files w' backupFile = Some (File M)"
    using assms create_ok_backup(1)[of w] by simp
  have l: "files w packageLock \<noteq> None \<Longrightarrow> files w' lockBackupFile = files w packageLock"
    using assms create_ok_backup(2)[of w] by simp
  show ?thesis using b l assms(5,6)
    by (auto simp: restore_def restore_try_def fs_defs Let_def is_dir_def
      split: option.splits node.splits sum.splits if_splits prod.splits)
qed

theorem backup_round_trip_witness:
  "files fresh_project packageJson = Some (File ''manifest-0'') \<and>
   fst (create fresh_project) \<and>
   files mutated_project packageJson = Some (File ''manifest-1'') \<and>
   files mutated_project packageLock = None \<and>
   fst (restore mutated_project) \<and>
   files (snd (restore mutated_project)) packageJson = Some (File ''manifest-0'') \<and>
   files (snd (restore mutated_project)) packageLock = Some (File ''lock-0'')"
  using backup_round_trip [of fresh_project "''manifest-0''" mutated_project]
  by (simp add: create_fresh mutated_project_def is_dir_def)

text \<open>
  C2 (idempotent create), evaluated where it fails. In the fresh project the manifest is
  \<^verbatim>\<open>manifest-0\<close> and the lock file \<^verbatim>\<open>lock-0\<close>; \<^verbatim>\<open>create()\<close> succeeds. Then the
  manifest becomes \<^verbatim>\<open>manifest-1\<close> and the lock file is deleted, and \<^verbatim>\<open>create()\<close>
  succeeds again: it overwrites the manifest backup and, finding no lock file, leaves the
  lock backup of the first call in place. The \<^verbatim>\<open>restore()\<close> that follows writes the
  second manifest and the first lock file.
\<close>

theorem create_twice_keeps_first_lock:
  "fst (create fresh_project) \<and>
   files mutated_project packageJson = Some (File ''manifest-1'') \<and>
   files mutated_project packageLock = None \<and>
   fst (create mutated_project) \<and>
   fst (restore (snd (create mutated_project))) \<and>
   files (snd (restore (snd (create mutated_project)))) packageJson = Some (File ''manifest-1'') \<and>
   files (snd (restore (snd (create mutated_project)))) packageLock = Some (File ''lock-0'')"
  by (simp add: create_fresh mutated_project_def)
     (simp add: create_def create_try_def restore_def restore_try_def fs_defs Let_def)

subsection \<open>BuildTester\<close>

text \<open>
  C7 (the exit status alone decides), evaluated where it fails. In a project in which
  \<^verbatim>\<open>./build\<close> is a regular file the build command exits with status 0, and
  \<^verbatim>\<open>testBuild()\<close> returns false: \<^verbatim>\<open>readdirSync\<close> throws inside the \<^verbatim>\<open>try\<close> block and
  the \<^verbatim>\<open>catch\<close> block reports a failed build.
\<close>

theorem testBuild_build_path_is_file:
  "\<not> command_fails (failing_at []) legacyBuildCommand build_file_project \<and>
   \<not> fst (testBuild (failing_at []) build_file_project)"
  by (simp add: command_fails_def run_defs)

text \<open>Whenever the build command does not leave a regular file at \<^verbatim>\<open>./build\<close>, the
  value of \<^verbatim>\<open>testBuild()\<close> is the exit status of the command.\<close>

lemma testBuild_exit_status:
  assumes "\<not> is_file (snd (exec env (ticks w) legacyBuildCommand (files w))) buildDir"
  shows "fst (testBuild env w) = (\<not> command_fails env legacyBuildCommand w)"
  using assms
  by (auto simp add: testBuild_def testBuild_catch_def command_fails_def readdirSync_def
        existsSync_def is_file_def Let_def case_prod_beta
      split: sum.splits option.splits node.splits)

lemma command_fails_logged [simp]:
  "command_fails env cmd (logger_log lvl msg w) = command_fails env cmd w"
  by (simp add: command_fails_def)

subsection \<open>Recorded calls\<close>

lemma steps_of_append [simp]: "steps_of (xs @ ys) = steps_of xs @ steps_of ys"
  by (simp add: steps_of_def)

lemma steps_of_simps [simp]:
  "steps_of [] = []"
  "steps_of (c # cs) = (if is_step_call c then c # steps_of cs else steps_of cs)"
  by (simp_all add: steps_of_def)

lemma create_calls [simp]: "calls (snd (create w)) = calls w @ [CreateCall]"
  by (simp add: create_def Let_def case_prod_beta split: option.splits)

lemma create_ticks [simp]: "ticks (snd (create w)) = ticks w"
  by (simp add: create_def Let_def case_prod_beta split: option.splits)

lemma restore_calls [simp]: "calls (snd (restore w)) = calls w @ [RestoreCall]"
  by (simp add: restore_def Let_def case_prod_beta split: option.splits)

lemma restore_ticks [simp]: "ticks (snd (restore w)) = ticks w"
  by (simp add: restore_def Let_def case_prod_beta split: option.splits)

lemma updateHomepageUrl_calls [simp]:
  "calls (updateHomepageUrl env w) = calls w @ [UpdateHomepageUrlCall]"
  by (simp add: updateHomepageUrl_def Let_def split: sum.splits)

lemma handleCompatibilityIssues_calls [simp]:
  "calls (handleCompatibilityIssues env w) = calls w @ [HandleCompatibilityIssuesCall]"
  by (simp add: handleCompatibilityIssues_def Let_def split: sum.splits)

lemma updateWorkflow_calls [simp]:
  "calls (updateWorkflowForNewVersion w) = calls w @ [UpdateWorkflowCall]"
  by (simp add: updateWorkflowForNewVersion_def Let_def split: sum.splits option.splits)

lemma testBuild_calls [simp]:
  "calls (snd (testBuild env w)) = calls w @ [TestBuildCall, Exec legacyBuildCommand]"
  by (simp add: testBuild_def testBuild_catch_def Let_def case_prod_beta split: sum.splits)

lemma installDependencies_calls [simp]:
  "calls (snd (installDependencies env w)) =
     calls w @ [InstallDependenciesCall, Exec installCommand]"
  by (simp add: installDependencies_def Let_def case_prod_beta split: sum.splits)

lemma verifyBuild_calls:
  "calls (snd (verifyBuild env v w)) =
     calls w @ Exec modernBuildCommand #
       (if command_fails env modernBuildCommand w then [TestBuildCall, Exec legacyBuildCommand] else [])"
  by (simp add: verifyBuild_def command_fails_def Let_def case_prod_beta split: sum.splits)

lemma verifyBuild_steps [simp]:
  "steps_of (calls (snd (verifyBuild env v w))) = steps_of (calls w)"
  by (simp add: verifyBuild_calls steps_of_def)

lemma upgradeToVersion_install_steps [simp]:
  "steps_of (calls (snd (upgradeToVersion_install env v d w))) =
     steps_of (calls w) @ [UpgradeToVersionCall v]"
  by (simp add: upgradeToVersion_install_def steps_of_def Let_def case_prod_beta split: sum.splits)

lemma upgradeToVersion_steps [simp]:
  "steps_of (calls (snd (upgradeToVersion env v d w))) =
     steps_of (calls w) @ [UpgradeToVersionCall v]"
  by (simp add: upgradeToVersion_def upgradeToVersion_catch_def case_prod_beta split: option.splits)

lemma attempt_steps [simp]:
  "steps_of (calls (snd (attempt env u w))) = steps_of (calls w) @ [UpgradeToVersionCall (version u)]"
  by (simp add: attempt_def)

lemma finalize_calls [simp]:
  "calls (finalize env u w) =
     calls w @ [UpdateWorkflowCall, InstallDependenciesCall, Exec installCommand]"
  by (simp add: finalize_def Let_def case_prod_beta)

lemma finish_calls [simp]:
  "calls (snd (finish env u w)) = calls (finalize env u w) @ [TestBuildCall, Exec legacyBuildCommand]"
  by (simp add: finish_def case_prod_beta split: bool.splits)

lemma finish_fst: "fst (finish env u w) = fst (testBuild env (finalize env u w))"
  by (simp add: finish_def case_prod_beta split: bool.splits)

lemma fallback_calls [simp]:
  "calls (fallback env u w) =
     calls w @ [RestoreCall, InstallDependenciesCall, Exec installCommand]"
  by (simp add: fallback_def Let_def case_prod_beta)

lemma finalize_steps [simp]: "steps_of (calls (finalize env u w)) = steps_of (calls w)"
  by simp

lemma finish_steps [simp]: "steps_of (calls (snd (finish env u w))) = steps_of (calls w)"
  by simp

lemma fallback_steps [simp]:
  "steps_of (calls (fallback env u w)) = steps_of (calls w) @ [RestoreCall]"
  by simp

lemma prepared_calls [simp]:
  "calls (prepared env w) =
     calls w @ [CreateCall, UpdateHomepageUrlCall, HandleCompatibilityIssuesCall]"
  by (simp add: prepared_def performUpgrade_start_def)

lemma prepared_steps [simp]: "steps_of (calls (prepared env w)) = steps_of (calls w)"
  by (simp add: prepared_def performUpgrade_start_def steps_of_def)

subsection \<open>The loop\<close>

lemma upgradeLoop_fail:
  "\<not> fst (attempt env u w) \<Longrightarrow>
   upgradeLoop env (u # rest) w = upgradeLoop env rest (fallback env u (snd (attempt env u w)))"
  by (simp add: case_prod_beta split: bool.splits)

lemma upgradeLoop_pass:
  "fst (attempt env u w) \<Longrightarrow>
   upgradeLoop env (u # rest) w = finish env u (snd (attempt env u w))"
  by (simp add: case_prod_beta split: bool.splits)

lemma performUpgrade_loop:
  "fst (create w) \<Longrightarrow> performUpgrade env path w = upgradeLoop env path (prepared env w)"
  by (simp add: performUpgrade_def prepared_def performUpgrade_start_def create_def Let_def
        case_prod_beta split: bool.splits option.splits)

lemma performUpgrade_abort:
  "\<not> fst (create w) \<Longrightarrow>
   performUpgrade env path w =
     (False, logger_error ''Failed to create backup - aborting''
               (snd (create (performUpgrade_start w))))"
proof -
  assume "\<not> fst (create w)"
  then have "\<not> fst (create (performUpgrade_start w))"
    by (simp add: create_result performUpgrade_start_def)
  then show ?thesis
    by (simp add: performUpgrade_def case_prod_beta split: bool.splits)
qed

lemma upgradeLoop_first_pass:
  "passes_first_at env path k w \<Longrightarrow>
   fst (upgradeLoop env path w) \<and>
   k < length path \<and>
   steps_of (calls (snd (upgradeLoop env path w))) =
     steps_of (calls w)
       @ concat (map (\<lambda>u. [UpgradeToVersionCall (version u), RestoreCall]) (take k path))
       @ [UpgradeToVersionCall (version (path ! k))]"
proof (induction env path k w rule: passes_first_at.induct)
  case (1 env k w)
  then show ?case by simp
next
  case (2 env u us w)
  then have a: "fst (attempt env u w)" and f: "fst (finish env u (snd (attempt env u w)))"
    by simp_all
  show ?case
    unfolding upgradeLoop_pass [OF a] using f by simp
next
  case (3 env u us k w)
  then have a: "\<not> fst (attempt env u w)"
    and p: "passes_first_at env us k (fallback env u (snd (attempt env u w)))"
    by simp_all
  show ?case
    unfolding upgradeLoop_fail [OF a] using "3.IH" [OF p] by simp
qed

lemma upgradeToVersion_install_calls_prefix:
  "prefix (calls w @ [UpgradeToVersionCall v]) (calls (snd (upgradeToVersion_install env v d w)))"
  by (simp add: upgradeToVersion_install_def Let_def case_prod_beta prefix_def split: sum.splits)

lemma upgradeToVersion_calls_prefix:
  "prefix (calls w @ [UpgradeToVersionCall v]) (calls (snd (upgradeToVersion env v d w)))"
proof -
  have "prefix (calls (snd (upgradeToVersion_install env v d w)))
          (calls (snd (upgradeToVersion env v d w)))"
    by (simp add: upgradeToVersion_def upgradeToVersion_catch_def verifyBuild_calls case_prod_beta
          split: option.splits)
  with upgradeToVersion_install_calls_prefix [of w v env d] show ?thesis
    by (rule prefix_order.trans)
qed

lemma attempt_calls_prefix:
  "prefix (calls w @ [UpgradeToVersionCall (version u)]) (calls (snd (attempt env u w)))"
  using upgradeToVersion_calls_prefix
    [of "logger_info ([CHR 0x0A] @ ''--- Attempting upgrade to '' @ description u @ '' ---'') w"]
  by (simp add: attempt_def)

lemma upgradeLoop_calls_mono: "prefix (calls w) (calls (snd (upgradeLoop env us w)))"
proof (induction us arbitrary: w)
  case Nil
  then show ?case by simp
next
  case (Cons u us)
  have a: "prefix (calls w) (calls (snd (attempt env u w)))"
    using attempt_calls_prefix [of w u env] by (auto simp: prefix_def)
  show ?case
  proof (cases "fst (attempt env u w)")
    case True
    then show ?thesis using a
      by (auto simp add: upgradeLoop_pass prefix_def simp del: upgradeLoop.simps)
  next
    case False
    have "prefix (calls (snd (attempt env u w)))
            (calls (snd (upgradeLoop env us (fallback env u (snd (attempt env u w))))))"
      using Cons.IH [of "fallback env u (snd (attempt env u w))"] by (auto simp: prefix_def)
    with a show ?thesis
      by (auto simp add: upgradeLoop_fail [OF False] prefix_def simp del: upgradeLoop.simps)
  qed
qed

lemma upgradeLoop_first_attempt:
  "prefix (calls w @ [UpgradeToVersionCall (version u)]) (calls (snd (upgradeLoop env (u # us) w)))"
proof (cases "fst (attempt env u w)")
  case True
  then show ?thesis using attempt_calls_prefix [of w u env]
    by (auto simp add: upgradeLoop_pass prefix_def simp del: upgradeLoop.simps)
next
  case False
  have "prefix (calls (snd (attempt env u w)))
          (calls (snd (upgradeLoop env us (fallback env u (snd (attempt env u w))))))"
    using upgradeLoop_calls_mono [of "fallback env u (snd (attempt env u w))" env us]
    by (auto simp: prefix_def)
  with attempt_calls_prefix [of w u env] show ?thesis
    by (auto simp add: upgradeLoop_fail [OF False] prefix_def simp del: upgradeLoop.simps)
qed

subsection \<open>The run\<close>

text \<open>
  C1 (abort before mutation), as the code has it. If \<^verbatim>\<open>create()\<close> returns false,
  \<^verbatim>\<open>performUpgrade\<close> returns false at once: the only method it has entered is
  \<^verbatim>\<open>create\<close>, it has run no command, and the live manifest and lock file are as they
  were; in particular it calls no \<^verbatim>\<open>restore()\<close>. The driver \<^verbatim>\<open>main\<close> then calls
  \<^verbatim>\<open>restore()\<close> once and exits with status 1.
\<close>

theorem abort_before_mutation:
  assumes "\<not> fst (create w)"
  shows "\<not> fst (performUpgrade env path w) \<and>
         calls (snd (performUpgrade env path w)) = calls w @ [CreateCall] \<and>
         ticks (snd (performUpgrade env path w)) = ticks w \<and>
         files (snd (performUpgrade env path w)) packageJson = files w packageJson \<and>
         files (snd (performUpgrade env path w)) packageLock = files w packageLock \<and>
         fst (main env w) = 1 \<and>
         calls (snd (main env w)) = calls w @ [CreateCall, RestoreCall]"
proof -
  let ?w = "logger_info ''=== React Scripts Upgrade Process Started ==='' w"
  have "\<not> fst (create ?w)"
    using assms by (simp add: create_result)
  note m = performUpgrade_abort [OF this, of env upgradePath]
  show ?thesis
    by (simp add: performUpgrade_abort [OF assms] m main_def Let_def create_result
          create_try_live performUpgrade_start_def)
qed

theorem abort_before_mutation_witness:
  "\<not> fst (create stale_backup_project) \<and>
   \<not> fst (performUpgrade (failing_at []) upgradePath stale_backup_project) \<and>
   calls (snd (performUpgrade (failing_at []) upgradePath stale_backup_project)) = [CreateCall] \<and>
   fst (main (failing_at []) stale_backup_project) = 1"
proof -
  have c: "\<not> fst (create stale_backup_project)"
    by (simp add: create_result create_try_def fs_defs)
  show ?thesis
    using abort_before_mutation [OF c, of "failing_at []" upgradePath] c by simp
qed

text \<open>
  The claim that no \<^verbatim>\<open>restore()\<close> is performed in that run fails: in a project
  without a manifest but with the backup file of an earlier run, \<^verbatim>\<open>create()\<close> returns
  false, the driver calls \<^verbatim>\<open>restore()\<close>, and the old backup becomes the live manifest.
\<close>

theorem abort_restores_counterexample:
  "\<not> fst (create stale_backup_project) \<and>
   files stale_backup_project packageJson = None \<and>
   calls (snd (main (failing_at []) stale_backup_project)) = [CreateCall, RestoreCall] \<and>
   files (snd (main (failing_at []) stale_backup_project)) packageJson = Some (File ''manifest-old'')"
  by (simp add: main_def run_defs)

text \<open>
  C3 (manifest edit failures are not fatal), as the code has it. When the edit of the
  homepage field throws, the failure is logged at level ERROR; when the edit of the
  browser-support lists throws, the failure is logged at level WARN. Whatever the two
  edits did, a run whose \<^verbatim>\<open>create()\<close> returned true goes on into the loop from the
  state the edits left, and the next method it enters is \<^verbatim>\<open>upgradeToVersion\<close> for the
  first step of the path.
\<close>

theorem edit_failures_not_fatal:
  "(updateHomepageUrl_try env (files w) = Inl e \<longrightarrow>
      logFile (updateHomepageUrl env w) =
        logFile w @ [(INFO, ''Updating homepage URL for new repository name...''),
                     (ERROR, ''Failed to update homepage: '' @ message e)]) \<and>
   (handleCompatibilityIssues_try env (files w) = Inl e \<longrightarrow>
      logFile (handleCompatibilityIssues env w) =
        logFile w @ [(INFO, ''Checking for compatibility issues...''),
                     (WARN, ''Could not update browserslist: '' @ message e)]) \<and>
   (fst (create w) \<longrightarrow>
      performUpgrade env (u # us) w = upgradeLoop env (u # us) (prepared env w) \<and>
      prefix (calls w @ [CreateCall, UpdateHomepageUrlCall, HandleCompatibilityIssuesCall,
                         UpgradeToVersionCall (version u)])
        (calls (snd (performUpgrade env (u # us) w))))"
proof (intro conjI impI)
  assume c: "fst (create w)"
  show "performUpgrade env (u # us) w = upgradeLoop env (u # us) (prepared env w)"
    by (rule performUpgrade_loop [OF c])
  show "prefix (calls w @ [CreateCall, UpdateHomepageUrlCall, HandleCompatibilityIssuesCall,
                         UpgradeToVersionCall (version u)])
        (calls (snd (performUpgrade env (u # us) w)))"
    using upgradeLoop_first_attempt [of "prepared env w" u env us]
    by (simp add: performUpgrade_loop [OF c] del: upgradeLoop.simps)
qed (simp_all add: updateHomepageUrl_def handleCompatibilityIssues_def Let_def)

theorem edit_failures_not_fatal_witness:
  "updateHomepageUrl_try unparsable (files fresh_project) =
     Inl \<lparr>message = ''Unexpected token'', stderr = [], stdout = []\<rparr> \<and>
   handleCompatibilityIssues_try unparsable (files fresh_project) =
     Inl \<lparr>message = ''Unexpected token'', stderr = [], stdout = []\<rparr> \<and>
   fst (create fresh_project) \<and>
   logFile (updateHomepageUrl unparsable fresh_project) =
     [(INFO, ''Updating homepage URL for new repository name...''),
      (ERROR, ''Failed to update homepage: Unexpected token'')] \<and>
   logFile (handleCompatibilityIssues unparsable fresh_project) =
     [(INFO, ''Checking for compatibility issues...''),
      (WARN, ''Could not update browserslist: Unexpected token'')] \<and>
   prefix [CreateCall, UpdateHomepageUrlCall, HandleCompatibilityIssuesCall,
           UpgradeToVersionCall ''5.0.0'']
     (calls (snd (performUpgrade unparsable upgradePath fresh_project)))"
proof -
  let ?e = "\<lparr>message = ''Unexpected token'', stderr = [], stdout = []\<rparr>"
  have h: "updateHomepageUrl_try unparsable (files fresh_project) = Inl ?e"
    by (simp add: updateHomepageUrl_try_def read_manifest_def fs_defs)
  have b: "handleCompatibilityIssues_try unparsable (files fresh_project) = Inl ?e"
    by (simp add: handleCompatibilityIssues_try_def read_manifest_def fs_defs)
  have c: "fst (create fresh_project)"
    by (rule create_fresh(1))
  have p: "upgradePath ! 0 # [upgradePath ! 1] = upgradePath"
    by (simp add: upgradePath_def)
  note t = edit_failures_not_fatal
    [of unparsable fresh_project ?e "upgradePath ! 0" "[upgradePath ! 1]", unfolded p]
  have l1: "logFile (updateHomepageUrl unparsable fresh_project) =
     logFile fresh_project @ [(INFO, ''Updating homepage URL for new repository name...''),
       (ERROR, ''Failed to update homepage: '' @ message ?e)]"
    using t h by blast
  have l2: "logFile (handleCompatibilityIssues unparsable fresh_project) =
     logFile fresh_project @ [(INFO, ''Checking for compatibility issues...''),
       (WARN, ''Could not update browserslist: '' @ message ?e)]"
    using t b by blast
  have l3: "prefix (calls fresh_project @ [CreateCall, UpdateHomepageUrlCall,
       HandleCompatibilityIssuesCall, UpgradeToVersionCall (version (upgradePath ! 0))])
     (calls (snd (performUpgrade unparsable upgradePath fresh_project)))"
    using t c by blast
  have v: "version (upgradePath ! 0) = ''5.0.0''" "logFile fresh_project = []"
    by (simp_all add: upgradePath_def fresh_project_def project_def)
  show ?thesis
    using h b c l1 l2 l3 by (simp add: v)
qed

text \<open>
  The claim that both failures are logged at warning level fails for the homepage edit:
  with a manifest that does not parse, the log of \<^verbatim>\<open>updateHomepageUrl\<close> is one INFO
  entry and one ERROR entry.
\<close>

theorem homepage_failure_level_counterexample:
  "updateHomepageUrl_try unparsable (files fresh_project) =
     Inl \<lparr>message = ''Unexpected token'', stderr = [], stdout = []\<rparr> \<and>
   logFile (updateHomepageUrl unparsable fresh_project) =
     [(INFO, ''Updating homepage URL for new repository name...''),
      (ERROR, ''Failed to update homepage: Unexpected token'')]"
  by (simp add: updateHomepageUrl_def updateHomepageUrl_try_def read_manifest_def fs_defs Let_def)
     (simp add: fresh_project_def project_def)

text \<open>
  C4 (step ordering), as the code has it. Let \<^verbatim>\<open>create()\<close> return true, and let step
  \<open>k\<close> (counted from 0) be the first step that passes, in the sense of
  \<open>passes_first_at\<close>: \<^verbatim>\<open>upgradeToVersion\<close> returns false for every earlier step, and at
  step \<open>k\<close> it returns true and the final build test passes. Then the run returns true,
  and its attempts and restores are, in this order: for each of the first \<open>k\<close> steps of
  the path the attempt of that step followed by one \<^verbatim>\<open>restore()\<close>, then the attempt of
  step \<open>k\<close>, and nothing after it.
\<close>

theorem step_ordering:
  assumes "fst (create w)" and "passes_first_at env path k (prepared env w)"
  shows "fst (performUpgrade env path w) \<and>
         k < length path \<and>
         steps_of (calls (snd (performUpgrade env path w))) =
           steps_of (calls w)
             @ concat (map (\<lambda>u. [UpgradeToVersionCall (version u), RestoreCall]) (take k path))
             @ [UpgradeToVersionCall (version (path ! k))]"
  using upgradeLoop_first_pass [OF assms(2)] by (simp add: performUpgrade_loop [OF assms(1)])

theorem step_ordering_witness:
  "fst (create fresh_project) \<and>
   passes_first_at (failing_at [1]) upgradePath 1 (prepared (failing_at [1]) fresh_project) \<and>
   fst (performUpgrade (failing_at [1]) upgradePath fresh_project) \<and>
   steps_of (calls (snd (performUpgrade (failing_at [1]) upgradePath fresh_project))) =
     [UpgradeToVersionCall ''5.0.0'', RestoreCall, UpgradeToVersionCall ''5.0.1'']"
proof -
  have c: "fst (create fresh_project)" by (rule create_fresh(1))
  have p: "passes_first_at (failing_at [1]) upgradePath 1 (prepared (failing_at [1]) fresh_project)"
    by (simp add: upgradePath_def run_defs)
  show ?thesis
    using step_ordering [OF c p] c p by (simp add: upgradePath_def)
qed

text \<open>
  The claim read with "full end-to-end verification" including the final build test
  fails: let the first step pass \<^verbatim>\<open>upgradeToVersion\<close> and fail its final build test
  (the sixth command of the run fails), and let every later command succeed. The second
  step would pass both \<^verbatim>\<open>upgradeToVersion\<close> and the final build test in the state the
  run ends in, so it is the first step whose end-to-end verification passes; but the
  run returns false after the first step, with no \<^verbatim>\<open>restore()\<close> in \<^verbatim>\<open>performUpgrade\<close>
  and no attempt of the second step, and the driver exits with status 1.
\<close>

theorem step_ordering_counterexample:
  "fst (create fresh_project) \<and>
   fst (attempt (failing_at [5]) (upgradePath ! 0) (prepared (failing_at [5]) fresh_project)) \<and>
   \<not> fst (finish (failing_at [5]) (upgradePath ! 0)
           (snd (attempt (failing_at [5]) (upgradePath ! 0)
                  (prepared (failing_at [5]) fresh_project)))) \<and>
   fst (attempt (failing_at [5]) (upgradePath ! 1)
          (snd (performUpgrade (failing_at [5]) upgradePath fresh_project))) \<and>
   fst (finish (failing_at [5]) (upgradePath ! 1)
          (snd (attempt (failing_at [5]) (upgradePath ! 1)
                 (snd (performUpgrade (failing_at [5]) upgradePath fresh_project))))) \<and>
   \<not> fst (performUpgrade (failing_at [5]) upgradePath fresh_project) \<and>
   steps_of (calls (snd (performUpgrade (failing_at [5]) upgradePath fresh_project))) =
     [UpgradeToVersionCall ''5.0.0''] \<and>
   fst (main (failing_at [5]) fresh_project) = 1"
  by (simp add: upgradePath_def main_def run_defs)

text \<open>
  The build verification of a step runs the build without the legacy provider first.
  \<^verbatim>\<open>testBuild()\<close> (the build with the legacy provider) is called if and only if that
  command fails, and then its value is the value of the verification; otherwise the
  verification passes. The verification passes when the first build fails and the build
  with the legacy provider then exits with status 0 without leaving a regular file at
  \<^verbatim>\<open>./build\<close>. When both installations of the step succeeded, the value of
  \<^verbatim>\<open>upgradeToVersion\<close> is the value of this build verification.
\<close>

lemma verifyBuild_strategies:
  "calls (snd (verifyBuild env v w)) =
     calls w @ Exec modernBuildCommand #
       (if command_fails env modernBuildCommand w
        then [TestBuildCall, Exec legacyBuildCommand] else []) \<and>
   fst (verifyBuild env v w) =
     (if command_fails env modernBuildCommand w
      then fst (testBuild env
             (logger_info ''Build failed without legacy provider, trying with legacy provider...''
               (snd (execSync env modernBuildCommand
                  (logger_info ''Testing build after upgrade...'' w)))))
      else True) \<and>
   (command_fails env modernBuildCommand w \<and>
    \<not> command_fails env legacyBuildCommand (snd (execSync env modernBuildCommand w)) \<and>
    \<not> is_file (files (snd (execSync env legacyBuildCommand
                   (snd (execSync env modernBuildCommand w))))) buildDir \<longrightarrow>
    fst (verifyBuild env v w)) \<and>
   (fst (upgradeToVersion_install env v d w0) = None \<longrightarrow>
      upgradeToVersion env v d w0 = verifyBuild env v (snd (upgradeToVersion_install env v d w0)))"
proof (intro conjI impI)
  let ?w1 = "logger_info ''Build failed without legacy provider, trying with legacy provider...''
               (snd (execSync env modernBuildCommand
                  (logger_info ''Testing build after upgrade...'' w)))"
  show v: "fst (verifyBuild env v w) =
     (if command_fails env modernBuildCommand w then fst (testBuild env ?w1) else True)"
    by (simp add: verifyBuild_def command_fails_def Let_def case_prod_beta split: sum.splits)
  show "calls (snd (verifyBuild env v w)) =
     calls w @ Exec modernBuildCommand #
       (if command_fails env modernBuildCommand w
        then [TestBuildCall, Exec legacyBuildCommand] else [])"
    by (rule verifyBuild_calls)
  show "upgradeToVersion env v d w0 = verifyBuild env v (snd (upgradeToVersion_install env v d w0))"
    if "fst (upgradeToVersion_install env v d w0) = None"
    using that by (simp add: upgradeToVersion_def case_prod_beta)
  show "fst (verifyBuild env v w)"
    if h: "command_fails env modernBuildCommand w \<and>
      \<not> command_fails env legacyBuildCommand (snd (execSync env modernBuildCommand w)) \<and>
      \<not> is_file (files (snd (execSync env legacyBuildCommand
                   (snd (execSync env modernBuildCommand w))))) buildDir"
  proof -
    have "\<not> is_file (snd (exec env (ticks ?w1) legacyBuildCommand (files ?w1))) buildDir"
      using h by simp
    then have "fst (testBuild env ?w1) = (\<not> command_fails env legacyBuildCommand ?w1)"
      by (rule testBuild_exit_status)
    moreover have "\<not> command_fails env legacyBuildCommand ?w1"
      using h by (simp add: command_fails_def)
    ultimately show ?thesis using h v by simp
  qed
qed

lemma verifyBuild_strategies_fresh:
  "fst (upgradeToVersion_install (failing_at [3]) ''5.0.0'' ''first'' fresh_project) = None \<and>
   command_fails (failing_at [3]) modernBuildCommand
     (snd (upgradeToVersion_install (failing_at [3]) ''5.0.0'' ''first'' fresh_project)) \<and>
   \<not> command_fails (failing_at [3]) legacyBuildCommand
     (snd (execSync (failing_at [3]) modernBuildCommand
        (snd (upgradeToVersion_install (failing_at [3]) ''5.0.0'' ''first'' fresh_project)))) \<and>
   fst (upgradeToVersion (failing_at [3]) ''5.0.0'' ''first'' fresh_project) \<and>
   calls (snd (upgradeToVersion (failing_at [3]) ''5.0.0'' ''first'' fresh_project)) =
     [UpgradeToVersionCall ''5.0.0'', Exec cleanCommand, Exec (installTargetCommand ''5.0.0''),
      Exec installCommand, Exec modernBuildCommand, TestBuildCall, Exec legacyBuildCommand]"
proof -
  let ?E = "failing_at [3]"
  let ?w = "snd (upgradeToVersion_install ?E ''5.0.0'' ''first'' fresh_project)"
  have i: "fst (upgradeToVersion_install ?E ''5.0.0'' ''first'' fresh_project) = None"
    by (simp add: run_defs)
  have f: "command_fails ?E modernBuildCommand ?w"
    by (simp add: command_fails_def run_defs)
  have l: "\<not> command_fails ?E legacyBuildCommand (snd (execSync ?E modernBuildCommand ?w))"
    by (simp add: command_fails_def run_defs)
  have b: "\<not> is_file (files (snd (execSync ?E legacyBuildCommand
                   (snd (execSync ?E modernBuildCommand ?w))))) buildDir"
    by (simp add: is_file_def run_defs)
  have c: "calls ?w = [UpgradeToVersionCall ''5.0.0'', Exec cleanCommand,
      Exec (installTargetCommand ''5.0.0''), Exec installCommand]"
    by (simp add: run_defs)
  note t = verifyBuild_strategies [of ?E "''5.0.0''" ?w "''first''" fresh_project]
  have "fst (verifyBuild ?E ''5.0.0'' ?w)"
    using t f l b by blast
  moreover have "upgradeToVersion ?E ''5.0.0'' ''first'' fresh_project =
      verifyBuild ?E ''5.0.0'' ?w"
    using t i by blast
  moreover have "calls (snd (verifyBuild ?E ''5.0.0'' ?w)) =
      calls ?w @ [Exec modernBuildCommand, TestBuildCall, Exec legacyBuildCommand]"
    using t f by simp
  ultimately show ?thesis
    using i f l c by simp
qed

text \<open>
  C5 (strategy fallback), evaluated where it fails. In a project in which \<^verbatim>\<open>./build\<close>
  is a regular file both installations of the step succeed, the build without the legacy
  provider fails and \<^verbatim>\<open>testBuild()\<close> is called; the build with the legacy provider
  exits with status 0, but \<^verbatim>\<open>readdirSync\<close> throws inside the \<^verbatim>\<open>try\<close> block of
  \<^verbatim>\<open>testBuild()\<close>, which returns false: the build verification fails and
  \<^verbatim>\<open>upgradeToVersion\<close> returns false.
\<close>

theorem strategy_fallback_build_path_is_file:
  "fst (upgradeToVersion_install (failing_at [3]) ''5.0.0'' ''first'' build_file_project) = None \<and>
   command_fails (failing_at [3]) modernBuildCommand
     (snd (upgradeToVersion_install (failing_at [3]) ''5.0.0'' ''first'' build_file_project)) \<and>
   \<not> command_fails (failing_at [3]) legacyBuildCommand
     (snd (execSync (failing_at [3]) modernBuildCommand
        (snd (upgradeToVersion_install (failing_at [3]) ''5.0.0'' ''first''
               build_file_project)))) \<and>
   calls (snd (upgradeToVersion (failing_at [3]) ''5.0.0'' ''first'' build_file_project)) =
     [UpgradeToVersionCall ''5.0.0'', Exec cleanCommand, Exec (installTargetCommand ''5.0.0''),
      Exec installCommand, Exec modernBuildCommand, TestBuildCall, Exec legacyBuildCommand] \<and>
   \<not> fst (verifyBuild (failing_at [3]) ''5.0.0''
           (snd (upgradeToVersion_install (failing_at [3]) ''5.0.0'' ''first''
                  build_file_project))) \<and>
   \<not> fst (upgradeToVersion (failing_at [3]) ''5.0.0'' ''first'' build_file_project)"
  by (simp add: command_fails_def run_defs)

text \<open>
  C6 (final verification). When \<^verbatim>\<open>upgradeToVersion\<close> returned true for the step at the
  head of the remaining path, the value of the run is the value of one more
  \<^verbatim>\<open>testBuild()\<close>, the build with the legacy provider being the last command of the run.
  No later step is attempted and nothing is restored, whether that test passes or fails:
  the steps behind the head have no influence on the run at all.
\<close>

theorem final_verification_ends_run:
  assumes "fst (attempt env u w)"
  shows "fst (upgradeLoop env (u # rest) w) = fst (testBuild env (finalize env u (snd (attempt env u w)))) \<and>
         calls (snd (upgradeLoop env (u # rest) w)) =
           calls (finalize env u (snd (attempt env u w))) @ [TestBuildCall, Exec legacyBuildCommand] \<and>
         steps_of (calls (snd (upgradeLoop env (u # rest) w))) =
           steps_of (calls w) @ [UpgradeToVersionCall (version u)] \<and>
         upgradeLoop env (u # rest) w = upgradeLoop env [u] w"
  by (simp add: upgradeLoop_pass [OF assms] finish_fst del: upgradeLoop.simps finalize_calls)

theorem final_verification_ends_run_witness:
  "fst (attempt (failing_at [5]) (upgradePath ! 0) fresh_project) \<and>
   \<not> fst (upgradeLoop (failing_at [5]) upgradePath fresh_project) \<and>
   steps_of (calls (snd (upgradeLoop (failing_at [5]) upgradePath fresh_project))) =
     [UpgradeToVersionCall ''5.0.0'']"
proof -
  have a: "fst (attempt (failing_at [5]) (upgradePath ! 0) fresh_project)"
    by (simp add: upgradePath_def run_defs)
  have p: "upgradePath ! 0 # [upgradePath ! 1] = upgradePath"
    by (simp add: upgradePath_def)
  have t: "\<not> fst (testBuild (failing_at [5])
             (finalize (failing_at [5]) (upgradePath ! 0)
                (snd (attempt (failing_at [5]) (upgradePath ! 0) fresh_project))))"
    by (simp add: upgradePath_def run_defs)
  have v: "version (upgradePath ! 0) = ''5.0.0''"
    by (simp add: upgradePath_def)
  note r = final_verification_ends_run [OF a, of "[upgradePath ! 1]", unfolded p]
  have "\<not> fst (upgradeLoop (failing_at [5]) upgradePath fresh_project)"
    using r t by blast
  moreover have "steps_of (calls (snd (upgradeLoop (failing_at [5]) upgradePath fresh_project))) =
     steps_of (calls fresh_project) @ [UpgradeToVersionCall (version (upgradePath ! 0))]"
    using r by blast
  ultimately show ?thesis
    using a by (simp add: v del: upgradeLoop.simps)
qed

text \<open>
  C9 (the value of the final installation is ignored). On the success path of a step,
  whatever \<^verbatim>\<open>installDependencies()\<close> returns (\<open>installed\<close> is not constrained), the
  final \<^verbatim>\<open>testBuild()\<close> is called in the state that installation left, and the value
  of the run is the value of that test.
\<close>

theorem final_install_result_ignored:
  assumes "fst (attempt env u w)"
      and "installDependencies env
             (updateWorkflowForNewVersion
               (logger_success (''Successfully upgraded to React Scripts '' @ version u)
                 (snd (attempt env u w)))) = (installed, w3)"
  shows "fst (upgradeLoop env (u # rest) w) =
           fst (testBuild env (logger_info ''Performing final build test...'' w3)) \<and>
         calls (snd (upgradeLoop env (u # rest) w)) =
           calls w3 @ [TestBuildCall, Exec legacyBuildCommand]"
  using assms(2)
  by (simp add: upgradeLoop_pass [OF assms(1)] finish_fst finalize_def Let_def
        del: upgradeLoop.simps finalize_calls)

theorem final_install_result_ignored_witness:
  "fst (attempt (failing_at [4]) (upgradePath ! 0) fresh_project) \<and>
   \<not> fst (installDependencies (failing_at [4])
            (updateWorkflowForNewVersion
              (logger_success (''Successfully upgraded to React Scripts '' @ version (upgradePath ! 0))
                (snd (attempt (failing_at [4]) (upgradePath ! 0) fresh_project))))) \<and>
   fst (upgradeLoop (failing_at [4]) upgradePath fresh_project)"
proof -
  let ?E = "failing_at [4]"
  let ?w2 = "updateWorkflowForNewVersion
              (logger_success (''Successfully upgraded to React Scripts '' @ version (upgradePath ! 0))
                (snd (attempt ?E (upgradePath ! 0) fresh_project)))"
  have a: "fst (attempt ?E (upgradePath ! 0) fresh_project)"
    by (simp add: upgradePath_def run_defs)
  have p: "upgradePath ! 0 # [upgradePath ! 1] = upgradePath"
    by (simp add: upgradePath_def)
  have i: "\<not> fst (installDependencies ?E ?w2)"
    by (simp add: upgradePath_def run_defs)
  have e: "installDependencies ?E ?w2 = (False, snd (installDependencies ?E ?w2))"
    using i by (cases "installDependencies ?E ?w2") simp
  have t: "fst (testBuild ?E (logger_info ''Performing final build test...''
              (snd (installDependencies ?E ?w2))))"
    by (simp add: upgradePath_def run_defs)
  show ?thesis
    using final_install_result_ignored [OF a e, of "[upgradePath ! 1]", unfolded p] a i t
    by simp
qed

subsection \<open>The workflow patch\<close>

lemma token_length [simp]: "length token = 16" "length token64 = 18"
  by (simp_all add: token_def token64_def)

















end
